theory Spec2Isabelle
  imports Complex_Main "HOL-Library.Sublist"
begin

section \<open>Data model (types.ts, App.tsx)\<close>

text \<open>
  \<^verbatim>\<open>BarcodeEntry\<close> of types.ts. The field \<^verbatim>\<open>id\<close> is named \<open>id_str\<close> here, since
  \<open>id\<close> is the identity function of HOL. \<^verbatim>\<open>label?: string\<close> is an optional field:
  \<open>None\<close> is \<^verbatim>\<open>undefined\<close>. \<^verbatim>\<open>createdAt\<close> holds \<^verbatim>\<open>Date.now()\<close>, a count of
  milliseconds. Strings are lists of code units in the range U+0000..U+00FF.
\<close>

datatype barcode_format = CODE128

record BarcodeEntry =
  id_str :: string
  createdAt :: nat
  label :: "string option"
  format :: barcode_format

text \<open>\<^verbatim>\<open>interface QueueItem extends BarcodeEntry { printId: string }\<close>\<close>

record QueueItem = BarcodeEntry +
  printId :: string

datatype status_type = Success | Error

datatype tab = Generator | Sheet

text \<open>The \<^verbatim>\<open>useState\<close> cells of the \<^verbatim>\<open>App\<close> component.\<close>

record AppState =
  history :: "BarcodeEntry list"
  currentEntry :: "BarcodeEntry option"
  labelInput :: string
  showHistory :: bool
  statusMessage :: "(status_type \<times> string) option"
  printQueue :: "QueueItem list"
  activeTab :: tab

section \<open>The browser's localStorage\<close>

text \<open>
  The application uses two keys of \<^verbatim>\<open>localStorage\<close>: \<^verbatim>\<open>'barcodegen_history_v1'\<close> and
  \<^verbatim>\<open>'barcodegen_print_queue'\<close>. An item is a text; the model keeps of a text what
  \<^verbatim>\<open>JSON.parse\<close> makes of it: the empty string, a text that is not JSON, JSON that
  is not an array, or the JSON array of a list of records. \<^verbatim>\<open>JSON.stringify\<close> of a
  list of records, parsed again, is that list (a field that is \<^verbatim>\<open>undefined\<close> is left
  out of the text and is \<^verbatim>\<open>undefined\<close> after parsing), so \<open>Array_json xs\<close> stands for
  \<^verbatim>\<open>JSON.stringify(xs)\<close>. An array whose elements are not records of that shape is
  outside the model.

  The item of the print queue has a type of its own. \<^verbatim>\<open>getHistory\<close> checks its parsed
  value with \<^verbatim>\<open>Array.isArray\<close>; the load of the print queue passes whatever
  \<^verbatim>\<open>JSON.parse\<close> returns to \<^verbatim>\<open>setPrintQueue\<close>. The state \<^verbatim>\<open>printQueue\<close> is declared
  \<^verbatim>\<open>QueueItem[]\<close>, and the only text the application writes under this key is
  \<^verbatim>\<open>JSON.stringify(printQueue)\<close>. The text of this item is therefore the empty string,
  a text that is not JSON, or the JSON of a list of queue records; a text that parses
  to a value of another type is outside the model.

  Every access can throw: the source wraps its accesses in \<^verbatim>\<open>try\<close>/\<^verbatim>\<open>catch\<close>. The
  storage is in one of three modes: working; rejecting every write (\<^verbatim>\<open>setItem\<close>
  throws \<^verbatim>\<open>QuotaExceededError\<close>); or denied to the page (reading the \<^verbatim>\<open>localStorage\<close>
  property throws \<^verbatim>\<open>SecurityError\<close>, whatever the method called).
\<close>

datatype 'a stored_text = Empty_text | Invalid_json | Non_array_json | Array_json "'a list"

datatype queue_text = Queue_empty_text | Queue_invalid_json | Queue_array_json "QueueItem list"

datatype storage_mode = Working | Write_rejected | Access_denied

datatype exn = SecurityError | QuotaExceededError | SyntaxError

record localStorage =
  history_item :: "BarcodeEntry stored_text option"
  queue_item :: "queue_text option"
  mode :: storage_mode

text \<open>\<^verbatim>\<open>localStorage.getItem(STORAGE_KEY)\<close>; \<open>None\<close> is \<^verbatim>\<open>null\<close>.\<close>

definition getItem_history :: "localStorage \<Rightarrow> exn + BarcodeEntry stored_text option" where
  "getItem_history ls =
     (if mode ls = Access_denied then Inl SecurityError else Inr (history_item ls))"

text \<open>\<^verbatim>\<open>localStorage.setItem(STORAGE_KEY, JSON.stringify(updated))\<close>\<close>

definition setItem_history :: "localStorage \<Rightarrow> BarcodeEntry list \<Rightarrow> exn + localStorage" where
  "setItem_history ls updated =
     (case mode ls of
        Access_denied \<Rightarrow> Inl SecurityError
      | Write_rejected \<Rightarrow> Inl QuotaExceededError
      | Working \<Rightarrow> Inr (ls\<lparr>history_item := Some (Array_json updated)\<rparr>))"

text \<open>\<^verbatim>\<open>localStorage.removeItem(STORAGE_KEY)\<close>\<close>

definition removeItem_history :: "localStorage \<Rightarrow> exn + localStorage" where
  "removeItem_history ls =
     (if mode ls = Access_denied then Inl SecurityError
      else Inr (ls\<lparr>history_item := None\<rparr>))"

text \<open>\<^verbatim>\<open>localStorage.getItem('barcodegen_print_queue')\<close>\<close>

definition getItem_queue :: "localStorage \<Rightarrow> exn + queue_text option" where
  "getItem_queue ls =
     (if mode ls = Access_denied then Inl SecurityError else Inr (queue_item ls))"

text \<open>\<^verbatim>\<open>localStorage.setItem('barcodegen_print_queue', JSON.stringify(printQueue))\<close>\<close>

definition setItem_queue :: "localStorage \<Rightarrow> QueueItem list \<Rightarrow> exn + localStorage" where
  "setItem_queue ls q =
     (case mode ls of
        Access_denied \<Rightarrow> Inl SecurityError
      | Write_rejected \<Rightarrow> Inl QuotaExceededError
      | Working \<Rightarrow> Inr (ls\<lparr>queue_item := Some (Queue_array_json q)\<rparr>))"

text \<open>
  \<^verbatim>\<open>JSON.parse\<close>: throws \<^verbatim>\<open>SyntaxError\<close> on a text that is not JSON (the empty
  string is not JSON); \<open>Inr None\<close> is a parsed value that is not an array.
\<close>

fun JSON_parse :: "'a stored_text \<Rightarrow> exn + 'a list option" where
  "JSON_parse Empty_text = Inl SyntaxError"
| "JSON_parse Invalid_json = Inl SyntaxError"
| "JSON_parse Non_array_json = Inr None"
| "JSON_parse (Array_json xs) = Inr (Some xs)"

text \<open>\<^verbatim>\<open>JSON.parse\<close> on the text of the print queue.\<close>

fun JSON_parse_queue :: "queue_text \<Rightarrow> exn + QueueItem list" where
  "JSON_parse_queue Queue_empty_text = Inl SyntaxError"
| "JSON_parse_queue Queue_invalid_json = Inl SyntaxError"
| "JSON_parse_queue (Queue_array_json q) = Inr q"

section \<open>storageService (services/storageService.ts)\<close>

text \<open>
  Each operation is its \<^verbatim>\<open>try\<close> block, \<open>_try\<close>, and the operation itself with the
  \<^verbatim>\<open>catch\<close> handler applied to it. \<open>Inl\<close> is an exception that reaches the caller.
  \<^verbatim>\<open>String(e.id)\<close> is \<^verbatim>\<open>e.id\<close> on a string.
\<close>

definition getHistory_try :: "localStorage \<Rightarrow> exn + BarcodeEntry list" where
  "getHistory_try ls =
     (case getItem_history ls of
        Inl x \<Rightarrow> Inl x
      | Inr None \<Rightarrow> Inr []
      | Inr (Some Empty_text) \<Rightarrow> Inr []
      | Inr (Some data) \<Rightarrow>
          (case JSON_parse data of
             Inl x \<Rightarrow> Inl x
           | Inr (Some parsed) \<Rightarrow> Inr parsed
           | Inr None \<Rightarrow> Inr []))"

definition getHistory :: "localStorage \<Rightarrow> exn + BarcodeEntry list" where
  "getHistory ls = (case getHistory_try ls of Inl error \<Rightarrow> Inr [] | Inr r \<Rightarrow> Inr r)"

definition saveEntry_try :: "BarcodeEntry \<Rightarrow> localStorage \<Rightarrow> exn + localStorage" where
  "saveEntry_try entry ls =
     (case getHistory ls of
        Inl x \<Rightarrow> Inl x
      | Inr hist \<Rightarrow>
          (let filtered = filter (\<lambda>e. id_str e \<noteq> id_str entry) hist;
               updated = entry # filtered
           in setItem_history ls updated))"

definition saveEntry :: "BarcodeEntry \<Rightarrow> localStorage \<Rightarrow> exn + localStorage" where
  "saveEntry entry ls = (case saveEntry_try entry ls of Inl error \<Rightarrow> Inr ls | Inr ls' \<Rightarrow> Inr ls')"

definition deleteEntry_try ::
  "string \<Rightarrow> localStorage \<Rightarrow> exn + BarcodeEntry list \<times> localStorage" where
  "deleteEntry_try i ls =
     (case getHistory ls of
        Inl x \<Rightarrow> Inl x
      | Inr hist \<Rightarrow>
          (let updated = filter (\<lambda>e. id_str e \<noteq> i) hist
           in case setItem_history ls updated of
                Inl x \<Rightarrow> Inl x
              | Inr ls' \<Rightarrow> Inr (updated, ls')))"

definition deleteEntry ::
  "string \<Rightarrow> localStorage \<Rightarrow> exn + BarcodeEntry list \<times> localStorage" where
  "deleteEntry i ls =
     (case deleteEntry_try i ls of
        Inl error \<Rightarrow> (case getHistory ls of Inl x \<Rightarrow> Inl x | Inr h \<Rightarrow> Inr (h, ls))
      | Inr r \<Rightarrow> Inr r)"

definition clearHistory :: "localStorage \<Rightarrow> exn + localStorage" where
  "clearHistory ls = removeItem_history ls"

section \<open>Numbers and strings of the JavaScript runtime\<close>

text \<open>
  \<^verbatim>\<open>Number.prototype.toString()\<close> on an integer: its decimal digits, most significant
  first, after a minus sign when it is negative.
\<close>

definition digit_char :: "nat \<Rightarrow> char" where
  "digit_char d = ''0123456789'' ! d"

fun digits :: "nat \<Rightarrow> string" where
  "digits n = (if n < 10 then [digit_char n] else digits (n div 10) @ [digit_char (n mod 10)])"

declare digits.simps [simp del]

definition toString :: "int \<Rightarrow> string" where
  "toString n = (if n < 0 then CHR ''-'' # digits (nat (- n)) else digits (nat n))"

text \<open>
  \<^verbatim>\<open>String.prototype.trim()\<close> removes WhiteSpace and LineTerminator code units from
  both ends: among U+0000..U+00FF these are TAB, LF, VT, FF, CR, SP and NBSP.
\<close>

definition isWhiteSpace :: "char \<Rightarrow> bool" where
  "isWhiteSpace c =
     (c = CHR 0x09 \<or> c = CHR 0x0A \<or> c = CHR 0x0B \<or> c = CHR 0x0C \<or> c = CHR 0x0D \<or>
      c = CHR 0x20 \<or> c = CHR 0xA0)"

definition trim :: "string \<Rightarrow> string" where
  "trim s = rev (dropWhile isWhiteSpace (rev (dropWhile isWhiteSpace s)))"

text \<open>\<^verbatim>\<open>s.substr(start, length)\<close> for a start that is not negative.\<close>

definition substr :: "string \<Rightarrow> nat \<Rightarrow> nat \<Rightarrow> string" where
  "substr s start len = take len (drop start s)"

section \<open>The App component (App.tsx)\<close>

text \<open>
  \<^verbatim>\<open>showStatus\<close> sets the status message; the timer it starts clears the message three
  seconds later.
\<close>

definition showStatus :: "status_type \<Rightarrow> string \<Rightarrow> AppState \<Rightarrow> AppState" where
  "showStatus type text st = st\<lparr>statusMessage := Some (type, text)\<rparr>"

subsection \<open>generateUniqueCode\<close>

definition maxAttempts :: nat where
  "maxAttempts = 100"

text \<open>
  The \<^verbatim>\<open>while\<close> loop on the variables \<^verbatim>\<open>code\<close>, \<^verbatim>\<open>isUnique\<close> and \<^verbatim>\<open>attempts\<close>.
  \<open>random k\<close> is what the call of \<^verbatim>\<open>Math.random()\<close> in iteration \<open>k\<close> returns, a
  number \<open>r\<close> with \<open>0 \<le> r < 1\<close>. The arithmetic on it is exact here. In the source it
  is in double precision, where the largest draw, \<open>1 - 2\<^sup>-\<^sup>5\<^sup>3\<close>, gives a sum below
  1000000000 as well: the integer drawn there is again one that the exact arithmetic
  gives for some \<open>r\<close> of that range.
\<close>

function probe ::
  "(nat \<Rightarrow> real) \<Rightarrow> string set \<Rightarrow> string \<times> bool \<times> nat \<Rightarrow> string \<times> bool \<times> nat" where
  "probe random existingIds (code, isUnique, attempts) =
     (if \<not> isUnique \<and> attempts < maxAttempts then
        (let code' = toString \<lfloor>100000000 + random attempts * 900000000\<rfloor>
         in probe random existingIds
              (code', if code' \<notin> existingIds then True else isUnique, attempts + 1))
      else (code, isUnique, attempts))"
  by pat_completeness auto
termination
  by (relation "measure (\<lambda>(random, existingIds, code, isUnique, attempts). maxAttempts - attempts)")
    auto

declare probe.simps [simp del]

text \<open>
  The handler returns what the source returns (or \<open>Inl\<close>, the exception that leaves
  it), with the component's state and the storage as they are at that moment.
  \<open>now\<close> is \<^verbatim>\<open>Date.now()\<close>.
\<close>

definition generateUniqueCode ::
  "(nat \<Rightarrow> real) \<Rightarrow> nat \<Rightarrow> AppState \<Rightarrow> localStorage \<Rightarrow>
     (exn + BarcodeEntry option) \<times> AppState \<times> localStorage" where
  "generateUniqueCode random now st ls =
     (let existingIds = set (map id_str (history st));
          (code, isUnique, attempts) = probe random existingIds ([], False, 0)
      in if \<not> isUnique then
           (Inr None, showStatus Error ''Critical error: Unique ID generation failed.'' st, ls)
         else
           (let newEntry =
                  \<lparr>id_str = code, createdAt = now,
                   label = (if trim (labelInput st) = [] then None
                            else Some (trim (labelInput st))),
                   format = CODE128\<rparr>;
                st1 = st\<lparr>currentEntry := Some newEntry\<rparr>
            in case saveEntry newEntry ls of
                 Inl x \<Rightarrow> (Inl x, st1, ls)
               | Inr ls' \<Rightarrow>
                   (Inr (Some newEntry),
                    showStatus Success (''Generated '' @ code)
                      (st1\<lparr>history := newEntry # history st, labelInput := []\<rparr>),
                    ls')))"

subsection \<open>The print queue\<close>

text \<open>
  \<open>r36\<close> is the text \<^verbatim>\<open>Math.random().toString(36)\<close>, a random number written in
  base 36, and \<open>now\<close> is \<^verbatim>\<open>Date.now()\<close>.
\<close>

definition addToPrintQueue ::
  "string \<Rightarrow> nat \<Rightarrow> BarcodeEntry option \<Rightarrow> AppState \<Rightarrow> AppState" where
  "addToPrintQueue r36 now entry st =
     (case entry of
        None \<Rightarrow> st
      | Some e \<Rightarrow>
          if length (printQueue st) \<ge> 20 then
            showStatus Error ''Sheet is full (Max 20 per A4 page).'' st
          else
            (let newItem =
                   \<lparr>id_str = id_str e, createdAt = createdAt e, label = label e,
                    format = format e,
                    printId = substr r36 2 9 @ toString (int now)\<rparr>
             in showStatus Success ''Added to A4 Sheet.''
                  (st\<lparr>printQueue := printQueue st @ [newItem]\<rparr>)))"

definition removeFromQueue :: "string \<Rightarrow> AppState \<Rightarrow> AppState" where
  "removeFromQueue pid st =
     st\<lparr>printQueue := filter (\<lambda>item. printId item \<noteq> pid) (printQueue st)\<rparr>"

text \<open>\<open>confirm\<close> is the answer to the \<^verbatim>\<open>confirm(...)\<close> dialogue.\<close>

definition clearQueue :: "bool \<Rightarrow> AppState \<Rightarrow> AppState" where
  "clearQueue confirm st =
     (if confirm then showStatus Success ''Sheet cleared.'' (st\<lparr>printQueue := []\<rparr>) else st)"

subsection \<open>handleCopy, handlePrint\<close>

text \<open>
  Writing to the clipboard and \<^verbatim>\<open>window.print()\<close> do not change the state of the
  component.
\<close>

definition handleCopy :: "string \<Rightarrow> AppState \<Rightarrow> AppState" where
  "handleCopy i st = showStatus Success ''ID copied.'' st"

definition handlePrint :: "AppState \<Rightarrow> AppState" where
  "handlePrint st =
     (if activeTab st = Sheet \<and> length (printQueue st) = 0 then
        showStatus Error ''Sheet is empty. Add barcodes first.'' st
      else if activeTab st = Generator \<and> currentEntry st = None then
        showStatus Error ''No barcode selected to print.'' st
      else st)"

subsection \<open>handleDelete\<close>

definition handleDelete ::
  "bool \<Rightarrow> string \<Rightarrow> AppState \<Rightarrow> localStorage \<Rightarrow> exn option \<times> AppState \<times> localStorage" where
  "handleDelete confirm i st ls =
     (if \<not> confirm then (None, st, ls)
      else
        (case deleteEntry i ls of
           Inl x \<Rightarrow> (Some x, st, ls)
         | Inr (updated, ls') \<Rightarrow>
             (None,
              showStatus Success ''Barcode deleted.''
                (st\<lparr>history := updated,
                    currentEntry :=
                      (case currentEntry st of
                         None \<Rightarrow> None
                       | Some c \<Rightarrow>
                           if id_str c = i
                           then (case updated of [] \<Rightarrow> None | u # _ \<Rightarrow> Some u)
                           else Some c),
                    printQueue := filter (\<lambda>item. id_str item \<noteq> i) (printQueue st)\<rparr>),
              ls')))"

subsection \<open>The effects: loading at mount, persisting the print queue\<close>

definition initialState :: AppState where
  "initialState =
     \<lparr>history = [], currentEntry = None, labelInput = [], showHistory = False,
      statusMessage = None, printQueue = [], activeTab = Generator\<rparr>"

text \<open>
  The storage and the component. \<open>app = None\<close>: the component is not mounted, because
  the page is not loaded yet or because an exception left one of its effects (React
  then removes the component).
\<close>

record system =
  storage :: localStorage
  app :: "AppState option"

text \<open>The second effect: it runs after a render in which \<^verbatim>\<open>printQueue\<close> is a new array.\<close>

definition persistQueue :: "AppState \<Rightarrow> localStorage \<Rightarrow> system" where
  "persistQueue st ls =
     (case setItem_queue ls (printQueue st) of
        Inl x \<Rightarrow> \<lparr>storage = ls, app = None\<rparr>
      | Inr ls' \<Rightarrow> \<lparr>storage = ls', app = Some st\<rparr>)"

text \<open>
  The first effect's \<^verbatim>\<open>if (savedQueue) { try { setPrintQueue(JSON.parse(savedQueue)) }
  catch ... }\<close>: \<open>Some q\<close> when \<^verbatim>\<open>setPrintQueue(q)\<close> is called, \<open>None\<close> when it is not (no
  item, the empty string, which is falsy, or a \<^verbatim>\<open>SyntaxError\<close>, which is caught and
  logged). The parsed list is not checked in any way.
\<close>

definition loadQueue :: "queue_text option \<Rightarrow> QueueItem list option" where
  "loadQueue savedQueue =
     (case savedQueue of
        None \<Rightarrow> None
      | Some Queue_empty_text \<Rightarrow> None
      | Some data \<Rightarrow>
          (case JSON_parse_queue data of
             Inl e \<Rightarrow> None
           | Inr q \<Rightarrow> Some q))"

text \<open>
  Mounting the component: the first effect reads the history and the saved queue; the
  second effect then writes the queue of the first render, which is empty; when the
  first effect has set a queue, the next render has a new \<^verbatim>\<open>printQueue\<close> and the
  second effect writes it.
\<close>

definition mount :: "localStorage \<Rightarrow> system" where
  "mount ls =
     (case getHistory ls of
        Inl x \<Rightarrow> \<lparr>storage = ls, app = None\<rparr>
      | Inr loadedHistory \<Rightarrow>
          (case getItem_queue ls of
             Inl x \<Rightarrow> \<lparr>storage = ls, app = None\<rparr>
           | Inr savedQueue \<Rightarrow>
               (case setItem_queue ls [] of
                  Inl x \<Rightarrow> \<lparr>storage = ls, app = None\<rparr>
                | Inr ls1 \<Rightarrow>
                    (let st = initialState
                           \<lparr>history := loadedHistory,
                            currentEntry :=
                              (case loadedHistory of [] \<Rightarrow> None | h # _ \<Rightarrow> Some h)\<rparr>
                     in case loadQueue savedQueue of
                          None \<Rightarrow> \<lparr>storage = ls1, app = Some st\<rparr>
                        | Some q \<Rightarrow> persistQueue (st\<lparr>printQueue := q\<rparr>) ls1))))"

subsection \<open>Events\<close>

text \<open>
  What happens to the page: it is loaded (or loaded again), the user acts on the
  mounted component, the status timer fires, or the storage changes its mode.
  \<open>Select e narrow\<close> is a click on the history row of \<open>e\<close>, \<open>narrow\<close> being
  \<^verbatim>\<open>window.innerWidth < 1024\<close>.
\<close>

datatype event =
    Load
  | Generate "nat \<Rightarrow> real" nat
  | TypeLabel string
  | Select BarcodeEntry bool
  | Enqueue string nat "BarcodeEntry option"
  | Dequeue string
  | ClearQueue bool
  | Delete bool string
  | Copy string
  | Print
  | StatusTimeout
  | SetTab tab
  | SetShowHistory bool
  | StorageMode storage_mode

text \<open>
  The state and the storage after the handler of an event, and whether the handler
  called \<^verbatim>\<open>setPrintQueue\<close> (the second effect then runs after the render).
\<close>

fun handler :: "event \<Rightarrow> AppState \<Rightarrow> localStorage \<Rightarrow> AppState \<times> localStorage" where
  "handler (Generate random now) st ls = snd (generateUniqueCode random now st ls)"
| "handler (TypeLabel s) st ls = (st\<lparr>labelInput := s\<rparr>, ls)"
| "handler (Select e narrow) st ls =
     (st\<lparr>currentEntry := Some e, activeTab := Generator,
         showHistory := (if narrow then False else showHistory st)\<rparr>, ls)"
| "handler (Enqueue r36 now entry) st ls = (addToPrintQueue r36 now entry st, ls)"
| "handler (Dequeue pid) st ls = (removeFromQueue pid st, ls)"
| "handler (ClearQueue confirm) st ls = (clearQueue confirm st, ls)"
| "handler (Delete confirm i) st ls = snd (handleDelete confirm i st ls)"
| "handler (Copy i) st ls = (handleCopy i st, ls)"
| "handler Print st ls = (handlePrint st, ls)"
| "handler StatusTimeout st ls = (st\<lparr>statusMessage := None\<rparr>, ls)"
| "handler (SetTab t) st ls = (st\<lparr>activeTab := t\<rparr>, ls)"
| "handler (SetShowHistory b) st ls = (st\<lparr>showHistory := b\<rparr>, ls)"
| "handler Load st ls = (st, ls)"
| "handler (StorageMode m) st ls = (st, ls)"

fun setsPrintQueue :: "event \<Rightarrow> AppState \<Rightarrow> localStorage \<Rightarrow> bool" where
  "setsPrintQueue (Enqueue r36 now entry) st ls = (entry \<noteq> None \<and> length (printQueue st) < 20)"
| "setsPrintQueue (Dequeue pid) st ls = True"
| "setsPrintQueue (ClearQueue confirm) st ls = confirm"
| "setsPrintQueue (Delete confirm i) st ls = (confirm \<and> fst (handleDelete confirm i st ls) = None)"
| "setsPrintQueue e st ls = False"

fun step :: "event \<Rightarrow> system \<Rightarrow> system" where
  "step Load sys = mount (storage sys)"
| "step (StorageMode m) sys = sys\<lparr>storage := (storage sys)\<lparr>mode := m\<rparr>\<rparr>"
| "step e sys =
     (case app sys of
        None \<Rightarrow> sys
      | Some st \<Rightarrow>
          (let (st', ls') = handler e st (storage sys)
           in if setsPrintQueue e st (storage sys) then persistQueue st' ls'
              else \<lparr>storage = ls', app = Some st'\<rparr>))"

fun run :: "event list \<Rightarrow> system \<Rightarrow> system" where
  "run [] sys = sys"
| "run (e # es) sys = run es (step e sys)"

section \<open>Notions used in the statements\<close>

text \<open>The list \<open>getHistory\<close> returns (it never throws, see \<open>getHistory_returns\<close>).\<close>

definition readHistory :: "localStorage \<Rightarrow> BarcodeEntry list" where
  "readHistory ls = (case getHistory ls of Inl x \<Rightarrow> [] | Inr h \<Rightarrow> h)"

text \<open>The candidate that one iteration of the loop of \<open>generateUniqueCode\<close> draws.\<close>

definition candidate :: "real \<Rightarrow> string" where
  "candidate r = toString \<lfloor>100000000 + r * 900000000\<rfloor>"

text \<open>The number that a string of decimal digits denotes.\<close>

definition decimal_value :: "string \<Rightarrow> nat" where
  "decimal_value s = foldl (\<lambda>a c. 10 * a + (of_char c - 48)) 0 s"



subsection \<open>Sample values\<close>

definition entryA :: BarcodeEntry where
  "entryA = \<lparr>id_str = ''111111111'', createdAt = 1700000000000, label = Some ''Asset 1'',
             format = CODE128\<rparr>"

definition entryB :: BarcodeEntry where
  "entryB = \<lparr>id_str = ''222222222'', createdAt = 1700000000001, label = None,
             format = CODE128\<rparr>"

definition entryZ :: BarcodeEntry where
  "entryZ = \<lparr>id_str = ''100000000'', createdAt = 1700000000002, label = None,
             format = CODE128\<rparr>"

definition itemA :: "string \<Rightarrow> QueueItem" where
  "itemA p = \<lparr>id_str = ''111111111'', createdAt = 1700000000000, label = Some ''Asset 1'',
               format = CODE128, printId = p\<rparr>"

definition emptyStorage :: localStorage where
  "emptyStorage = \<lparr>history_item = None, queue_item = None, mode = Working\<rparr>"

definition storageAB :: "storage_mode \<Rightarrow> localStorage" where
  "storageAB m =
     \<lparr>history_item = Some (Array_json [entryA, entryB]), queue_item = None, mode = m\<rparr>"

definition stateAB :: AppState where
  "stateAB = initialState\<lparr>history := [entryA, entryB], currentEntry := Some entryA,
               printQueue := [itemA ''i1700000000005'']\<rparr>"




section \<open>The storage service\<close>

text \<open>
  \<open>getHistory\<close>, \<open>saveEntry\<close> and \<open>deleteEntry\<close> return in every mode of the storage,
  and \<open>getHistory\<close> returns the empty list when the item is absent, empty, not JSON
  or not an array.
\<close>

lemma getHistory_returns: "getHistory ls = Inr (readHistory ls)"
  by (simp add: getHistory_def readHistory_def split: sum.splits)

lemma readHistory_Working:
  "mode ls = Working \<Longrightarrow>
   readHistory ls = (case history_item ls of Some (Array_json xs) \<Rightarrow> xs | _ \<Rightarrow> [])"
  by (simp add: readHistory_def getHistory_def getHistory_try_def getItem_history_def
      split: option.splits stored_text.splits sum.splits)

lemma readHistory_denied: "mode ls = Access_denied \<Longrightarrow> readHistory ls = []"
  by (simp add: readHistory_def getHistory_def getHistory_try_def getItem_history_def)

lemma readHistory_Write_rejected:
  "mode ls = Write_rejected \<Longrightarrow>
   readHistory ls = (case history_item ls of Some (Array_json xs) \<Rightarrow> xs | _ \<Rightarrow> [])"
  by (simp add: readHistory_def getHistory_def getHistory_try_def getItem_history_def
      split: option.splits stored_text.splits sum.splits)

lemma readHistory_absent_or_malformed:
  "history_item ls \<in> {None, Some Empty_text, Some Invalid_json, Some Non_array_json} \<Longrightarrow>
   getHistory ls = Inr []"
  by (auto simp add: getHistory_def getHistory_try_def getItem_history_def)

lemma readHistory_update:
  "mode ls = Working \<Longrightarrow> readHistory (ls\<lparr>history_item := Some (Array_json xs)\<rparr>) = xs"
  by (simp add: readHistory_Working)

lemma saveEntry_Working:
  "mode ls = Working \<Longrightarrow>
   saveEntry e ls =
     Inr (ls\<lparr>history_item :=
               Some (Array_json (e # filter (\<lambda>x. id_str x \<noteq> id_str e) (readHistory ls)))\<rparr>)"
  by (simp add: saveEntry_def saveEntry_try_def getHistory_returns setItem_history_def)

lemma saveEntry_not_Working: "mode ls \<noteq> Working \<Longrightarrow> saveEntry e ls = Inr ls"
  by (cases "mode ls")
    (simp_all add: saveEntry_def saveEntry_try_def getHistory_returns setItem_history_def)

lemma saveEntry_returns: "\<exists>ls'. saveEntry e ls = Inr ls'"
  by (cases "mode ls = Working") (simp_all add: saveEntry_Working saveEntry_not_Working)

lemma deleteEntry_Working:
  "mode ls = Working \<Longrightarrow>
   deleteEntry i ls =
     Inr (filter (\<lambda>e. id_str e \<noteq> i) (readHistory ls),
          ls\<lparr>history_item := Some (Array_json (filter (\<lambda>e. id_str e \<noteq> i) (readHistory ls)))\<rparr>)"
  by (simp add: deleteEntry_def deleteEntry_try_def getHistory_returns setItem_history_def Let_def)

lemma deleteEntry_not_Working:
  "mode ls \<noteq> Working \<Longrightarrow> deleteEntry i ls = Inr (readHistory ls, ls)"
  by (cases "mode ls")
    (simp_all add: deleteEntry_def deleteEntry_try_def getHistory_returns setItem_history_def Let_def)

lemma deleteEntry_returns: "\<exists>r. deleteEntry i ls = Inr r"
  by (cases "mode ls = Working") (simp_all add: deleteEntry_Working deleteEntry_not_Working)

lemma storageService_caught:
  "getHistory ls = Inr (readHistory ls) \<and> (\<exists>ls'. saveEntry e ls = Inr ls') \<and>
   (\<exists>r. deleteEntry i ls = Inr r)"
  using getHistory_returns saveEntry_returns deleteEntry_returns by blast

lemma clearHistory_throws: "mode ls = Access_denied \<Longrightarrow> clearHistory ls = Inl SecurityError"
  by (simp add: clearHistory_def removeItem_history_def)

text \<open>
  C7. The claim is that no operation of the store throws to its caller. \<open>getHistory\<close>,
  \<open>saveEntry\<close> and \<open>deleteEntry\<close> catch every exception (\<open>storageService_caught\<close>), and
  \<open>getHistory\<close> returns the empty list on absent or malformed data
  (\<open>readHistory_absent_or_malformed\<close>). \<open>clearHistory\<close> has no handler: on a storage that
  is denied to the page the \<^verbatim>\<open>SecurityError\<close> of the access reaches the caller.
\<close>

theorem clearHistory_throws_on_denied:
  "clearHistory (storageAB Access_denied) = Inl SecurityError"
  by (simp add: clearHistory_def removeItem_history_def storageAB_def)

text \<open>
  C4. As stated the claim fails where the write is dropped (the counterexample below).
  What holds: \<open>saveEntry e\<close> returns in every mode, and saving \<open>e\<close> again leaves the store
  as the first save left it (idempotence: same list, same length, same position). When
  the storage is working, the stored list after \<open>saveEntry e\<close> is \<open>e\<close> followed by the
  former records whose id differs from that of \<open>e\<close>: \<open>e\<close> is first, it is the only record
  with its id, and the ids of the list are pairwise distinct if they were before.
\<close>

theorem saveEntry_prepends:
  "\<exists>ls'. saveEntry e ls = Inr ls' \<and> saveEntry e ls' = Inr ls' \<and>
     (mode ls = Working \<longrightarrow>
        getHistory ls' = Inr (e # filter (\<lambda>x. id_str x \<noteq> id_str e) (readHistory ls)) \<and>
        filter (\<lambda>x. id_str x = id_str e) (readHistory ls') = [e] \<and>
        (distinct (map id_str (readHistory ls)) \<longrightarrow> distinct (map id_str (readHistory ls')))) \<and>
     (mode ls \<noteq> Working \<longrightarrow> ls' = ls)"
proof (cases "mode ls = Working")
  case False
  then show ?thesis by (simp add: saveEntry_not_Working)
next
  case True
  let ?h = "e # filter (\<lambda>x. id_str x \<noteq> id_str e) (readHistory ls)"
  let ?ls = "ls\<lparr>history_item := Some (Array_json ?h)\<rparr>"
  have s: "saveEntry e ls = Inr ?ls" using True by (rule saveEntry_Working)
  have m: "mode ?ls = Working" using True by simp
  have r: "readHistory ?ls = ?h" using True by (rule readHistory_update)
  have f: "filter (\<lambda>x. id_str x \<noteq> id_str e) ?h = filter (\<lambda>x. id_str x \<noteq> id_str e) (readHistory ls)"
    by simp
  have again: "saveEntry e ?ls = Inr ?ls"
    unfolding saveEntry_Working [OF m] r f by simp
  have one: "filter (\<lambda>x. id_str x = id_str e) ?h = [e]"
    by (simp add: filter_empty_conv)
  have d: "distinct (map id_str (readHistory ls)) \<longrightarrow> distinct (map id_str ?h)"
    by (auto simp add: distinct_map_filter)
  from s again one d r True show ?thesis
    by (simp add: getHistory_returns)
qed

theorem saveEntry_prepends_witness:
  "saveEntry entryA (storageAB Working) =
     Inr \<lparr>history_item = Some (Array_json [entryA, entryB]), queue_item = None, mode = Working\<rparr> \<and>
   saveEntry entryB (storageAB Working) =
     Inr \<lparr>history_item = Some (Array_json [entryB, entryA]), queue_item = None, mode = Working\<rparr> \<and>
   getHistory \<lparr>history_item = Some (Array_json [entryB, entryA]), queue_item = None,
     mode = Working\<rparr> = Inr [entryB, entryA]"
  using saveEntry_prepends [of entryA "storageAB Working"]
    saveEntry_prepends [of entryB "storageAB Working"]
  by (auto simp add: storageAB_def entryA_def entryB_def readHistory_Working saveEntry_Working)

text \<open>
  On a storage that rejects the write, \<open>saveEntry entryA\<close> leaves the stored list
  \<open>[entryB]\<close> as it is: the entry saved last is not first, it is not stored at all.
\<close>

theorem saveEntry_dropped_counterexample:
  "saveEntry entryA \<lparr>history_item = Some (Array_json [entryB]), queue_item = None,
     mode = Write_rejected\<rparr> =
     Inr \<lparr>history_item = Some (Array_json [entryB]), queue_item = None, mode = Write_rejected\<rparr> \<and>
   getHistory \<lparr>history_item = Some (Array_json [entryB]), queue_item = None,
     mode = Write_rejected\<rparr> = Inr [entryB] \<and>
   entryA \<noteq> entryB"
  by (simp add: saveEntry_def saveEntry_try_def getHistory_def getHistory_try_def
      getItem_history_def setItem_history_def entryA_def entryB_def)



section \<open>Decimal digits and trimming\<close>

lemma digit_char_cases:
  "d < 10 \<Longrightarrow> d = 0 \<or> d = 1 \<or> d = 2 \<or> d = 3 \<or> d = 4 \<or> d = 5 \<or> d = 6 \<or> d = 7 \<or> d = 8 \<or> d = (9::nat)"
  by arith

lemma digit_char_in: "d < 10 \<Longrightarrow> digit_char d \<in> set ''0123456789''"
  using digit_char_cases [of d] by (auto simp add: digit_char_def)

lemma of_char_digit_char: "d < 10 \<Longrightarrow> of_char (digit_char d) = 48 + d"
  using digit_char_cases [of d] by (auto simp add: digit_char_def)

lemma digit_char_zero_iff: "d < 10 \<Longrightarrow> digit_char d = CHR ''0'' \<longleftrightarrow> d = 0"
  using digit_char_cases [of d] by (auto simp add: digit_char_def)

lemma digits_not_Nil: "digits n \<noteq> []"
  by (subst digits.simps) simp

lemma digits_chars: "c \<in> set (digits n) \<Longrightarrow> c \<in> set ''0123456789''"
proof (induction n rule: digits.induct)
  case (1 n)
  show ?case
  proof (cases "n < 10")
    case True
    with "1.prems" show ?thesis
      using digit_char_in [of n] by (subst (asm) digits.simps) simp
  next
    case False
    with "1.prems" have "c \<in> set (digits (n div 10)) \<or> c = digit_char (n mod 10)"
      by (subst (asm) digits.simps) auto
    then show ?thesis
      using "1.IH" [OF False] digit_char_in [of "n mod 10"] by auto
  qed
qed

lemma digits_length: "10 ^ k \<le> n \<Longrightarrow> n < 10 ^ Suc k \<Longrightarrow> length (digits n) = Suc k"
proof (induction k arbitrary: n)
  case 0
  then show ?case by (subst digits.simps) simp
next
  case (Suc k)
  have one: "1 \<le> (10::nat) ^ k" by simp
  from Suc.prems have lo: "10 * 10 ^ k \<le> n" and hi: "n < 10 * 10 ^ Suc k"
    by simp_all
  from one lo have ge: "10 \<le> n" by arith
  from lo have "10 ^ k \<le> n div 10" by arith
  moreover from hi have "n div 10 < 10 ^ Suc k" by arith
  ultimately have "length (digits (n div 10)) = Suc k"
    by (rule Suc.IH)
  with ge show ?case
    by (subst digits.simps) simp
qed

lemma digits_hd: "0 < n \<Longrightarrow> hd (digits n) \<noteq> CHR ''0''"
proof (induction n rule: digits.induct)
  case (1 n)
  show ?case
  proof (cases "n < 10")
    case True
    with "1.prems" show ?thesis
      by (subst digits.simps) (simp add: digit_char_zero_iff)
  next
    case False
    then have "0 < n div 10" by simp
    with "1.IH" False have "hd (digits (n div 10)) \<noteq> CHR ''0''" by simp
    with False show ?thesis
      by (subst digits.simps) (simp add: digits_not_Nil)
  qed
qed

lemma decimal_value_digits: "decimal_value (digits n) = n"
proof (induction n rule: digits.induct)
  case (1 n)
  show ?case
  proof (cases "n < 10")
    case True
    then show ?thesis
      by (subst digits.simps) (simp add: decimal_value_def of_char_digit_char)
  next
    case False
    with "1.IH" have "decimal_value (digits (n div 10)) = n div 10" by simp
    with False show ?thesis
      by (subst digits.simps) (simp add: decimal_value_def of_char_digit_char)
  qed
qed

lemma digits_inject: "digits m = digits n \<Longrightarrow> m = n"
  by (metis decimal_value_digits)

lemma toString_nat: "toString (int n) = digits n"
  by (simp add: toString_def)

lemma toString_inject_nat: "toString (int m) = toString (int n) \<Longrightarrow> m = n"
  by (simp add: toString_nat digits_inject)

lemma toString_nine_digits:
  assumes "100000000 \<le> n" and "n \<le> (999999999::int)"
  shows "length (toString n) = 9" and "hd (toString n) \<noteq> CHR ''0''"
    and "\<forall>c\<in>set (toString n). c \<in> set ''0123456789''"
proof -
  from assms have n: "toString n = digits (nat n)" by (simp add: toString_def)
  from assms have "10 ^ 8 \<le> nat n" and "nat n < 10 ^ Suc 8" by simp_all
  then have "length (digits (nat n)) = Suc 8" by (rule digits_length)
  with n show "length (toString n) = 9" by simp
  from assms have "0 < nat n" by simp
  with n show "hd (toString n) \<noteq> CHR ''0''" by (simp add: digits_hd)
  from n show "\<forall>c\<in>set (toString n). c \<in> set ''0123456789''"
    using digits_chars by auto
qed

lemma trim_decomp:
  "\<exists>pre post. s = pre @ trim s @ post \<and> list_all isWhiteSpace pre \<and> list_all isWhiteSpace post"
proof -
  let ?t = "dropWhile isWhiteSpace s"
  have "s = takeWhile isWhiteSpace s @ ?t" by simp
  moreover have "rev ?t = takeWhile isWhiteSpace (rev ?t) @ dropWhile isWhiteSpace (rev ?t)"
    by simp
  then have "?t = trim s @ rev (takeWhile isWhiteSpace (rev ?t))"
    unfolding trim_def by (metis rev_append rev_rev_ident)
  moreover have "list_all isWhiteSpace (takeWhile isWhiteSpace s)"
    by (simp add: list_all_iff) (metis set_takeWhileD)
  moreover have "list_all isWhiteSpace (rev (takeWhile isWhiteSpace (rev ?t)))"
    by (simp add: list_all_iff) (metis set_takeWhileD)
  ultimately show ?thesis by metis
qed

lemma trim_Nil_iff: "trim s = [] \<longleftrightarrow> list_all isWhiteSpace s"
proof -
  let ?t = "dropWhile isWhiteSpace s"
  have "trim s = [] \<longleftrightarrow> (\<forall>x\<in>set ?t. isWhiteSpace x)"
    by (simp add: trim_def dropWhile_eq_Nil_conv)
  also have "\<dots> \<longleftrightarrow> ?t = []"
    by (metis hd_dropWhile hd_in_set empty_iff list.set(1))
  also have "\<dots> \<longleftrightarrow> list_all isWhiteSpace s"
    by (simp add: dropWhile_eq_Nil_conv list_all_iff)
  finally show ?thesis .
qed

lemma trim_last: "trim s \<noteq> [] \<Longrightarrow> \<not> isWhiteSpace (last (trim s))"
  by (simp add: trim_def last_rev hd_dropWhile)

lemma trim_hd: "trim s \<noteq> [] \<Longrightarrow> \<not> isWhiteSpace (hd (trim s))"
proof -
  assume ne: "trim s \<noteq> []"
  let ?t = "dropWhile isWhiteSpace s"
  have "rev ?t = takeWhile isWhiteSpace (rev ?t) @ dropWhile isWhiteSpace (rev ?t)"
    by simp
  then have t: "?t = trim s @ rev (takeWhile isWhiteSpace (rev ?t))"
    unfolding trim_def by (metis rev_append rev_rev_ident)
  with ne have "?t \<noteq> []" by (metis append_is_Nil_conv)
  then have "\<not> isWhiteSpace (hd ?t)" by (rule hd_dropWhile)
  moreover from t ne have "hd ?t = hd (trim s)" by (metis hd_append2)
  ultimately show ?thesis by simp
qed

section \<open>generateUniqueCode\<close>

lemma candidate_range:
  assumes "0 \<le> r" and "r < 1"
  shows "100000000 \<le> \<lfloor>100000000 + r * 900000000\<rfloor>"
    and "\<lfloor>100000000 + r * 900000000\<rfloor> \<le> 999999999"
proof -
  from assms show "100000000 \<le> \<lfloor>100000000 + r * 900000000\<rfloor>"
    by (simp add: le_floor_iff)
  from assms have "100000000 + r * 900000000 < 1000000000" by simp
  then have "\<lfloor>100000000 + r * 900000000\<rfloor> < 1000000000"
    by (simp add: floor_less_iff)
  then show "\<lfloor>100000000 + r * 900000000\<rfloor> \<le> 999999999" by simp
qed

lemma probe_found:
  "probe random ids (c, u, a) = (c', True, a') \<Longrightarrow>
   (u \<and> c' = c \<and> a' = a) \<or>
   (\<not> u \<and> (\<exists>k. a \<le> k \<and> k < maxAttempts \<and> c' = candidate (random k) \<and> c' \<notin> ids \<and> a' = Suc k))"
proof (induction random ids "(c, u, a)" arbitrary: c u a rule: probe.induct)
  case (1 random existingIds code isUnique attempts)
  show ?case
  proof (cases "\<not> isUnique \<and> attempts < maxAttempts")
    case False
    with "1.prems" show ?thesis
      by (subst (asm) probe.simps) auto
  next
    case True
    let ?c = "candidate (random attempts)"
    let ?u = "if ?c \<notin> existingIds then True else isUnique"
    from True "1.prems" have run: "probe random existingIds (?c, ?u, attempts + 1) = (c', True, a')"
      by (subst (asm) probe.simps) (simp add: candidate_def Let_def)
    from "1.hyps" [OF True candidate_def run]
    have "(?u \<and> c' = ?c \<and> a' = attempts + 1) \<or>
      (\<not> ?u \<and> (\<exists>k. attempts + 1 \<le> k \<and> k < maxAttempts \<and> c' = candidate (random k) \<and>
         c' \<notin> existingIds \<and> a' = Suc k))"
      by simp
    then show ?thesis
    proof
      assume "?u \<and> c' = ?c \<and> a' = attempts + 1"
      with True show ?thesis by (auto split: if_splits)
    next
      assume "\<not> ?u \<and> (\<exists>k. attempts + 1 \<le> k \<and> k < maxAttempts \<and> c' = candidate (random k) \<and>
         c' \<notin> existingIds \<and> a' = Suc k)"
      then obtain k where "attempts + 1 \<le> k" "k < maxAttempts" "c' = candidate (random k)"
        "c' \<notin> existingIds" "a' = Suc k" by blast
      with True show ?thesis by (intro disjI2 conjI exI [of _ k]) simp_all
    qed
  qed
qed

lemma probe_exhausted:
  "\<forall>k. a \<le> k \<and> k < maxAttempts \<longrightarrow> candidate (random k) \<in> ids \<Longrightarrow> \<not> u \<Longrightarrow> a \<le> maxAttempts \<Longrightarrow>
   snd (probe random ids (c, u, a)) = (False, maxAttempts)"
proof (induction random ids "(c, u, a)" arbitrary: c u a rule: probe.induct)
  case (1 random existingIds code isUnique attempts)
  show ?case
  proof (cases "attempts < maxAttempts")
    case False
    with "1.prems" show ?thesis
      by (subst probe.simps) simp
  next
    case True
    let ?c = "candidate (random attempts)"
    from True "1.prems" have coll: "?c \<in> existingIds" by simp
    from True "1.prems" have cond: "\<not> isUnique \<and> attempts < maxAttempts" by simp
    have "snd (probe random existingIds (?c, isUnique, attempts + 1)) = (False, maxAttempts)"
      using "1.hyps" [OF cond candidate_def] "1.prems" True coll
      by simp
    with cond coll show ?thesis
      by (subst probe.simps) (simp add: candidate_def Let_def)
  qed
qed

lemma generateUniqueCode_cases:
  "generateUniqueCode random now st ls = (Inr (Some e), st', ls') \<Longrightarrow>
   \<exists>c a. probe random (set (map id_str (history st))) ([], False, 0) = (c, True, a) \<and>
     e = \<lparr>id_str = c, createdAt = now,
          label = (if trim (labelInput st) = [] then None else Some (trim (labelInput st))),
          format = CODE128\<rparr> \<and>
     st' = showStatus Success (''Generated '' @ c)
             (st\<lparr>currentEntry := Some e, history := e # history st, labelInput := []\<rparr>)"
  by (auto simp add: generateUniqueCode_def Let_def split: prod.splits if_splits sum.splits)

text \<open>
  C1. Let every draw of \<^verbatim>\<open>Math.random()\<close> be in \<open>[0, 1)\<close>. If \<open>generateUniqueCode\<close>
  returns an entry \<open>e\<close>, then the id of \<open>e\<close> has exactly 9 characters, all of them decimal
  digits, the first not \<open>0\<close>; it is the decimal text of a number from 100000000 to
  999999999; it is not the id of any entry of the history before the call. After the call
  \<open>e\<close> is the first element of the history and the current entry. The label of \<open>e\<close> is
  absent when the input is empty or all white space, and the trimmed input otherwise: the
  input without a white-space prefix and a white-space suffix, neither starting nor
  ending with white space. The format is \<open>CODE128\<close> and \<open>createdAt\<close> is the time of the
  call.
\<close>

theorem generateUniqueCode_entry:
  assumes rnd: "\<forall>k<maxAttempts. 0 \<le> random k \<and> random k < 1"
    and gen: "generateUniqueCode random now st ls = (Inr (Some e), st', ls')"
  shows "length (id_str e) = 9 \<and>
    list_all (\<lambda>c. c \<in> set ''0123456789'') (id_str e) \<and>
    hd (id_str e) \<noteq> CHR ''0'' \<and>
    (\<exists>n. 100000000 \<le> n \<and> n \<le> 999999999 \<and> id_str e = toString n) \<and>
    id_str e \<notin> set (map id_str (history st)) \<and>
    history st' = e # history st \<and>
    currentEntry st' = Some e \<and>
    label e = (if list_all isWhiteSpace (labelInput st) then None
               else Some (trim (labelInput st))) \<and>
    (\<exists>pre post. labelInput st = pre @ trim (labelInput st) @ post \<and>
       list_all isWhiteSpace pre \<and> list_all isWhiteSpace post) \<and>
    (\<forall>l. label e = Some l \<longrightarrow> l \<noteq> [] \<and> \<not> isWhiteSpace (hd l) \<and> \<not> isWhiteSpace (last l)) \<and>
    format e = CODE128 \<and> createdAt e = now"
proof -
  from generateUniqueCode_cases [OF gen] obtain c a where
    pr: "probe random (set (map id_str (history st))) ([], False, 0) = (c, True, a)" and
    e: "e = \<lparr>id_str = c, createdAt = now,
          label = (if trim (labelInput st) = [] then None else Some (trim (labelInput st))),
          format = CODE128\<rparr>" and
    st': "st' = showStatus Success (''Generated '' @ c)
             (st\<lparr>currentEntry := Some e, history := e # history st, labelInput := []\<rparr>)"
    by blast
  from probe_found [OF pr] obtain k where k: "k < maxAttempts" and
    c: "c = candidate (random k)" and fresh: "c \<notin> set (map id_str (history st))"
    by auto
  let ?n = "\<lfloor>100000000 + random k * 900000000\<rfloor>"
  from rnd k have r: "0 \<le> random k" "random k < 1" by simp_all
  have range: "100000000 \<le> ?n" "?n \<le> 999999999"
    using candidate_range [OF r] by simp_all
  have cn: "c = toString ?n" by (simp add: c candidate_def)
  have id: "id_str e = c" by (simp add: e)
  have 1: "length (id_str e) = 9"
    using toString_nine_digits(1) [OF range] by (simp add: id cn)
  have 2: "list_all (\<lambda>c. c \<in> set ''0123456789'') (id_str e)"
    using toString_nine_digits(3) [OF range] by (simp add: id cn list_all_iff)
  have 3: "hd (id_str e) \<noteq> CHR ''0''"
    using toString_nine_digits(2) [OF range] by (simp add: id cn)
  have 4: "\<exists>n. 100000000 \<le> n \<and> n \<le> 999999999 \<and> id_str e = toString n"
    using range id cn by blast
  have 5: "id_str e \<notin> set (map id_str (history st))"
    using fresh by (simp add: id)
  have 6: "history st' = e # history st" "currentEntry st' = Some e"
    by (simp_all add: st' showStatus_def)
  have 7: "label e = (if list_all isWhiteSpace (labelInput st) then None
               else Some (trim (labelInput st)))"
    by (simp add: e trim_Nil_iff)
  have 8: "\<forall>l. label e = Some l \<longrightarrow> l \<noteq> [] \<and> \<not> isWhiteSpace (hd l) \<and> \<not> isWhiteSpace (last l)"
    using trim_hd [of "labelInput st"] trim_last [of "labelInput st"]
    by (auto simp add: e split: if_splits)
  have 9: "format e = CODE128" "createdAt e = now"
    by (simp_all add: e)
  from 1 2 3 4 5 6 7 8 9 trim_decomp [of "labelInput st"] show ?thesis
    by blast
qed

theorem generateUniqueCode_entry_witness:
  "generateUniqueCode (\<lambda>k. 1 / 2) 1700000000000 (initialState\<lparr>labelInput := ''  Asset 1 ''\<rparr>)
     emptyStorage =
   (Inr (Some \<lparr>id_str = ''550000000'', createdAt = 1700000000000, label = Some ''Asset 1'',
               format = CODE128\<rparr>),
    \<lparr>history = [\<lparr>id_str = ''550000000'', createdAt = 1700000000000, label = Some ''Asset 1'',
               format = CODE128\<rparr>],
     currentEntry = Some \<lparr>id_str = ''550000000'', createdAt = 1700000000000,
               label = Some ''Asset 1'', format = CODE128\<rparr>,
     labelInput = [], showHistory = False,
     statusMessage = Some (Success, ''Generated 550000000''),
     printQueue = [], activeTab = Generator\<rparr>,
    \<lparr>history_item = Some (Array_json [\<lparr>id_str = ''550000000'', createdAt = 1700000000000,
               label = Some ''Asset 1'', format = CODE128\<rparr>]),
     queue_item = None, mode = Working\<rparr>) \<and>
   length ''550000000'' = 9 \<and> ''550000000'' \<notin> set (map id_str (history initialState))"
proof -
  have g: "generateUniqueCode (\<lambda>k. 1 / 2) 1700000000000 (initialState\<lparr>labelInput := ''  Asset 1 ''\<rparr>)
     emptyStorage =
   (Inr (Some \<lparr>id_str = ''550000000'', createdAt = 1700000000000, label = Some ''Asset 1'',
               format = CODE128\<rparr>),
    \<lparr>history = [\<lparr>id_str = ''550000000'', createdAt = 1700000000000, label = Some ''Asset 1'',
               format = CODE128\<rparr>],
     currentEntry = Some \<lparr>id_str = ''550000000'', createdAt = 1700000000000,
               label = Some ''Asset 1'', format = CODE128\<rparr>,
     labelInput = [], showHistory = False,
     statusMessage = Some (Success, ''Generated 550000000''),
     printQueue = [], activeTab = Generator\<rparr>,
    \<lparr>history_item = Some (Array_json [\<lparr>id_str = ''550000000'', createdAt = 1700000000000,
               label = Some ''Asset 1'', format = CODE128\<rparr>]),
     queue_item = None, mode = Working\<rparr>)"
    by (simp add: generateUniqueCode_def initialState_def emptyStorage_def probe.simps
        maxAttempts_def toString_def digits.simps digit_char_def trim_def isWhiteSpace_def
        saveEntry_def saveEntry_try_def getHistory_def getHistory_try_def getItem_history_def
        setItem_history_def showStatus_def Let_def)
  have r: "\<forall>k<maxAttempts. 0 \<le> (1 / 2 :: real) \<and> (1 / 2 :: real) < 1" by simp
  from generateUniqueCode_entry [OF r g] g show ?thesis
    by (simp add: initialState_def)
qed

text \<open>
  C3. If each of the 100 candidates drawn is an id of the history, the loop ends with
  \<^verbatim>\<open>isUnique\<close> false after exactly 100 attempts, \<open>generateUniqueCode\<close> returns
  \<^verbatim>\<open>null\<close> (no entry) and sets the error status; the history, the current entry, the
  print queue and the storage are as before.
\<close>

theorem generateUniqueCode_exhausted:
  assumes "\<forall>k<maxAttempts. toString \<lfloor>100000000 + random k * 900000000\<rfloor>
             \<in> set (map id_str (history st))"
  shows "snd (probe random (set (map id_str (history st))) ([], False, 0)) = (False, 100) \<and>
    generateUniqueCode random now st ls =
      (Inr None,
       st\<lparr>statusMessage := Some (Error, ''Critical error: Unique ID generation failed.'')\<rparr>,
       ls)"
proof -
  from assms have "\<forall>k. 0 \<le> k \<and> k < maxAttempts \<longrightarrow>
      candidate (random k) \<in> set (map id_str (history st))"
    by (simp add: candidate_def)
  then have p: "snd (probe random (set (map id_str (history st))) ([], False, 0)) =
      (False, maxAttempts)"
    by (rule probe_exhausted) simp_all
  then show ?thesis
    by (auto simp add: generateUniqueCode_def showStatus_def maxAttempts_def Let_def
        split: prod.splits)
qed

theorem generateUniqueCode_exhausted_witness:
  "snd (probe (\<lambda>k. 0) (set (map id_str [entryZ])) ([], False, 0)) =
     (False, 100) \<and>
   generateUniqueCode (\<lambda>k. 0) 1700000000002
     (initialState\<lparr>history := [entryZ]\<rparr>)
     \<lparr>history_item = Some (Array_json [entryZ]), queue_item = None, mode = Working\<rparr> =
     (Inr None,
      initialState\<lparr>history := [entryZ],
        statusMessage := Some (Error, ''Critical error: Unique ID generation failed.'')\<rparr>,
      \<lparr>history_item = Some (Array_json [entryZ]), queue_item = None, mode = Working\<rparr>)"
  using generateUniqueCode_exhausted [of "\<lambda>k. 0"
      "initialState\<lparr>history := [entryZ]\<rparr>" 1700000000002
      "\<lparr>history_item = Some (Array_json [entryZ]), queue_item = None, mode = Working\<rparr>"]
  by (simp add: toString_def digits.simps digit_char_def entryZ_def)

section \<open>The print queue\<close>

text \<open>
  C5. Adding an entry to a queue of 20 items sets the error status
  \<^verbatim>\<open>'Sheet is full (Max 20 per A4 page).'\<close> and changes nothing else: the queue keeps its 20
  items and no item is made. Adding an entry to a queue of fewer than 20 items appends
  exactly one item, a copy of the entry, at the end. So a queue of at most 20 items has at
  most 20 items after \<open>addToPrintQueue\<close>, whatever the argument.
\<close>

theorem addToPrintQueue_capacity:
  "(length (printQueue st) = 20 \<longrightarrow>
      addToPrintQueue r36 now (Some e) st =
        st\<lparr>statusMessage := Some (Error, ''Sheet is full (Max 20 per A4 page).'')\<rparr>) \<and>
   (length (printQueue st) < 20 \<longrightarrow>
      (\<exists>item. printQueue (addToPrintQueue r36 now (Some e) st) = printQueue st @ [item] \<and>
         BarcodeEntry.truncate item = e)) \<and>
   (length (printQueue st) \<le> 20 \<longrightarrow>
      length (printQueue (addToPrintQueue r36 now entry st)) \<le> 20)"
  by (cases entry)
    (auto simp add: addToPrintQueue_def showStatus_def Let_def BarcodeEntry.truncate_def)

theorem addToPrintQueue_capacity_witness:
  "addToPrintQueue ''0.i'' 1700000000005 (Some entryA)
     (initialState\<lparr>printQueue := replicate 20 (itemA ''i1700000000004'')\<rparr>) =
     initialState\<lparr>printQueue := replicate 20 (itemA ''i1700000000004''),
       statusMessage := Some (Error, ''Sheet is full (Max 20 per A4 page).'')\<rparr> \<and>
   printQueue (addToPrintQueue ''0.i'' 1700000000005 (Some entryA)
     (initialState\<lparr>printQueue := replicate 19 (itemA ''i1700000000004'')\<rparr>)) =
     replicate 19 (itemA ''i1700000000004'') @ [itemA ''i1700000000005'']"
proof -
  let ?full = "initialState\<lparr>printQueue := replicate 20 (itemA ''i1700000000004'')\<rparr>"
  have "length (printQueue ?full) = 20" by simp
  with addToPrintQueue_capacity [of ?full "''0.i''" 1700000000005 entryA "Some entryA"]
  have "addToPrintQueue ''0.i'' 1700000000005 (Some entryA) ?full =
      ?full\<lparr>statusMessage := Some (Error, ''Sheet is full (Max 20 per A4 page).'')\<rparr>"
    by blast
  moreover have "printQueue (addToPrintQueue ''0.i'' 1700000000005 (Some entryA)
     (initialState\<lparr>printQueue := replicate 19 (itemA ''i1700000000004'')\<rparr>)) =
     replicate 19 (itemA ''i1700000000004'') @ [itemA ''i1700000000005'']"
    by (simp add: addToPrintQueue_def showStatus_def substr_def toString_def digits.simps
        digit_char_def entryA_def itemA_def)
  ultimately show ?thesis by simp
qed

text \<open>
  C8. As stated the claim fails: with an absent entry \<open>addToPrintQueue\<close> returns at its
  first line and shows no status (the counterexample below). What
  holds: \<open>addToPrintQueue\<close> with an absent entry leaves the whole state as it is, the print
  queue and the status message included.
\<close>

theorem addToPrintQueue_absent_entry: "addToPrintQueue r36 now None st = st"
  by (simp add: addToPrintQueue_def)

theorem addToPrintQueue_absent_entry_witness:
  "addToPrintQueue ''0.i'' 1700000000005 None stateAB = stateAB"
  using addToPrintQueue_absent_entry [of "''0.i''" 1700000000005 stateAB] by simp

text \<open>
  With no entry, no error is shown: a state without status message has none afterwards,
  and a success message that is on display stays.
\<close>

theorem addToPrintQueue_absent_entry_counterexample:
  "statusMessage (addToPrintQueue ''0.i'' 1700000000005 None initialState) = None \<and>
   statusMessage
     (addToPrintQueue ''0.i'' 1700000000005 None
        (initialState\<lparr>statusMessage := Some (Success, ''Generated 111111111'')\<rparr>)) =
     Some (Success, ''Generated 111111111'')"
  by (simp add: addToPrintQueue_def initialState_def)

text \<open>
  C9. As stated the claim fails: \<^verbatim>\<open>printId\<close> is a piece of a random number followed by
  the time, and two insertions with the same draw at the same millisecond get the same
  \<^verbatim>\<open>printId\<close> (the counterexample below). What holds: on a queue with room for
  both (at most 18 items), adding the same entry twice appends two items that are copies
  of the entry (same id and label); the \<^verbatim>\<open>printId\<close> of each is characters 2 to 10 of the
  random text followed by the decimal time; the two differ whenever the two times have
  the same number of digits and the random pieces or the times differ.
\<close>

theorem addToPrintQueue_twice:
  assumes "length (printQueue st) \<le> 18"
  shows "\<exists>i1 i2.
    printQueue (addToPrintQueue r2 t2 (Some e) (addToPrintQueue r1 t1 (Some e) st)) =
      printQueue st @ [i1, i2] \<and>
    BarcodeEntry.truncate i1 = e \<and> BarcodeEntry.truncate i2 = e \<and>
    id_str i1 = id_str e \<and> id_str i2 = id_str e \<and> label i1 = label e \<and> label i2 = label e \<and>
    printId i1 = substr r1 2 9 @ toString (int t1) \<and>
    printId i2 = substr r2 2 9 @ toString (int t2) \<and>
    (length (toString (int t1)) = length (toString (int t2)) \<and>
       (substr r1 2 9 \<noteq> substr r2 2 9 \<or> t1 \<noteq> t2) \<longrightarrow> printId i1 \<noteq> printId i2)"
proof -
  have inj: "length (toString (int t1)) = length (toString (int t2)) \<Longrightarrow>
      substr r1 2 9 @ toString (int t1) = substr r2 2 9 @ toString (int t2) \<Longrightarrow>
      substr r1 2 9 = substr r2 2 9 \<and> t1 = t2"
    by (simp add: toString_inject_nat)
  from assms inj show ?thesis
    by (auto simp add: addToPrintQueue_def showStatus_def Let_def BarcodeEntry.truncate_def)
qed

theorem addToPrintQueue_twice_witness:
  "map printId (printQueue (addToPrintQueue ''0.k'' 1700000000005 (Some entryA)
      (addToPrintQueue ''0.i'' 1700000000005 (Some entryA) initialState))) =
     [''i1700000000005'', ''k1700000000005''] \<and>
   map BarcodeEntry.truncate (printQueue (addToPrintQueue ''0.k'' 1700000000005 (Some entryA)
      (addToPrintQueue ''0.i'' 1700000000005 (Some entryA) initialState))) = [entryA, entryA]"
  using addToPrintQueue_twice [of initialState "''0.k''" 1700000000005 entryA "''0.i''" 1700000000005]
  by (simp add: addToPrintQueue_def showStatus_def substr_def toString_def digits.simps
        digit_char_def entryA_def initialState_def BarcodeEntry.truncate_def)

text \<open>
  The same random text \<^verbatim>\<open>'0.i'\<close> and the same time for both insertions: both items
  have the \<^verbatim>\<open>printId\<close> \<^verbatim>\<open>'i1700000000005'\<close>.
\<close>

theorem addToPrintQueue_twice_counterexample:
  "map printId (printQueue (addToPrintQueue ''0.i'' 1700000000005 (Some entryA)
      (addToPrintQueue ''0.i'' 1700000000005 (Some entryA) initialState))) =
     [''i1700000000005'', ''i1700000000005'']"
  by (simp add: addToPrintQueue_def showStatus_def substr_def toString_def digits.simps
        digit_char_def entryA_def initialState_def)

section \<open>handleDelete\<close>

text \<open>
  C2. As stated the claim fails where the storage rejects the write
  (the counterexample below). What holds: a deletion that the user
  declines changes nothing. A confirmed deletion of \<open>i\<close> never throws; afterwards the
  history in memory is the list the store returns on reading, no item of the print queue
  has the id \<open>i\<close> (all items of other ids stay, in order), and the current entry, if its id
  was \<open>i\<close>, is the first element of the new history, or absent when that is empty (it is
  unchanged otherwise). When the storage is working, moreover, the stored list is the
  former one without the records of id \<open>i\<close>, so that neither the store, nor the history, nor
  the current entry has the id \<open>i\<close>. When the storage rejects the write, the storage is
  unchanged and the history becomes the stored list as it is: every stored record of id
  \<open>i\<close> is still in the store and in the history. When the storage is denied to the page,
  the storage is unchanged, the history becomes empty and the current entry, if its id
  was \<open>i\<close>, absent.
\<close>

theorem handleDelete_effects:
  "handleDelete False i st ls = (None, st, ls) \<and>
   (\<exists>st' ls'. handleDelete True i st ls = (None, st', ls') \<and>
      history st' = readHistory ls' \<and>
      printQueue st' = filter (\<lambda>item. id_str item \<noteq> i) (printQueue st) \<and>
      i \<notin> set (map id_str (printQueue st')) \<and>
      currentEntry st' =
        (if \<exists>c. currentEntry st = Some c \<and> id_str c = i
         then (case history st' of [] \<Rightarrow> None | u # _ \<Rightarrow> Some u)
         else currentEntry st) \<and>
      (mode ls = Working \<longrightarrow>
         readHistory ls' = filter (\<lambda>e. id_str e \<noteq> i) (readHistory ls) \<and>
         i \<notin> set (map id_str (readHistory ls')) \<and>
         i \<notin> set (map id_str (history st')) \<and>
         (\<forall>c. currentEntry st' = Some c \<longrightarrow> id_str c \<noteq> i)) \<and>
      (mode ls \<noteq> Working \<longrightarrow> ls' = ls) \<and>
      (mode ls = Write_rejected \<longrightarrow>
         ls' = ls \<and>
         history st' = (case history_item ls of Some (Array_json xs) \<Rightarrow> xs | _ \<Rightarrow> []) \<and>
         history st' = readHistory ls \<and>
         (\<forall>e. e \<in> set (readHistory ls) \<and> id_str e = i \<longrightarrow>
            e \<in> set (readHistory ls') \<and> e \<in> set (history st'))) \<and>
      (mode ls = Access_denied \<longrightarrow>
         ls' = ls \<and> history st' = [] \<and>
         (\<forall>c. currentEntry st = Some c \<and> id_str c = i \<longrightarrow> currentEntry st' = None)))"
proof -
  obtain u ls' where d: "deleteEntry i ls = Inr (u, ls')" and r: "readHistory ls' = u"
    and w: "mode ls = Working \<longrightarrow> u = filter (\<lambda>e. id_str e \<noteq> i) (readHistory ls)"
    and n: "mode ls \<noteq> Working \<longrightarrow> ls' = ls"
  proof (cases "mode ls = Working")
    case True
    with that show ?thesis
      by (simp add: deleteEntry_Working readHistory_update)
  next
    case False
    with that show ?thesis
      by (simp add: deleteEntry_not_Working)
  qed
  define cur where "cur =
    (case currentEntry st of
       None \<Rightarrow> None
     | Some c \<Rightarrow> if id_str c = i then (case u of [] \<Rightarrow> None | v # _ \<Rightarrow> Some v) else Some c)"
  define st' where "st' = showStatus Success ''Barcode deleted.''
    (st\<lparr>history := u, currentEntry := cur,
        printQueue := filter (\<lambda>item. id_str item \<noteq> i) (printQueue st)\<rparr>)"
  have 0: "handleDelete False i st ls = (None, st, ls)"
    by (simp add: handleDelete_def)
  have 1: "handleDelete True i st ls = (None, st', ls')"
    by (simp add: handleDelete_def d st'_def cur_def)
  have 2: "history st' = readHistory ls'"
    by (simp add: st'_def showStatus_def r)
  have 3: "printQueue st' = filter (\<lambda>item. id_str item \<noteq> i) (printQueue st)"
    by (simp add: st'_def showStatus_def)
  have 4: "i \<notin> set (map id_str (printQueue st'))"
    unfolding 3 by auto
  have h: "history st' = u" and c: "currentEntry st' = cur"
    by (simp_all add: st'_def showStatus_def)
  have 5: "currentEntry st' =
        (if \<exists>c. currentEntry st = Some c \<and> id_str c = i
         then (case history st' of [] \<Rightarrow> None | u # _ \<Rightarrow> Some u)
         else currentEntry st)"
    unfolding h c cur_def by (cases "currentEntry st") simp_all
  have 6: "readHistory ls' = filter (\<lambda>e. id_str e \<noteq> i) (readHistory ls) \<and>
         i \<notin> set (map id_str (readHistory ls')) \<and>
         i \<notin> set (map id_str (history st')) \<and>
         (\<forall>c. currentEntry st' = Some c \<longrightarrow> id_str c \<noteq> i)" if "mode ls = Working"
  proof -
    from that w have u: "u = filter (\<lambda>e. id_str e \<noteq> i) (readHistory ls)" by simp
    then have nu: "i \<notin> set (map id_str u)" by auto
    have "id_str c \<noteq> i" if "cur = Some c" for c
    proof (cases "currentEntry st")
      case None
      with that show ?thesis by (simp add: cur_def)
    next
      case (Some c0)
      show ?thesis
      proof (cases "id_str c0 = i")
        case False
        with Some that show ?thesis by (simp add: cur_def)
      next
        case True
        with Some that obtain us where "u = c # us"
          by (cases u) (simp_all add: cur_def)
        with nu show ?thesis by auto
      qed
    qed
    with u nu show ?thesis by (simp add: r h c)
  qed
  have 7: "ls' = ls \<and>
         history st' = (case history_item ls of Some (Array_json xs) \<Rightarrow> xs | _ \<Rightarrow> []) \<and>
         history st' = readHistory ls \<and>
         (\<forall>e. e \<in> set (readHistory ls) \<and> id_str e = i \<longrightarrow>
            e \<in> set (readHistory ls') \<and> e \<in> set (history st'))" if "mode ls = Write_rejected"
  proof -
    from that n have l: "ls' = ls" by simp
    with r h have "history st' = readHistory ls" by simp
    with l that show ?thesis by (simp add: readHistory_Write_rejected)
  qed
  have 8: "ls' = ls \<and> history st' = [] \<and>
         (\<forall>c. currentEntry st = Some c \<and> id_str c = i \<longrightarrow> currentEntry st' = None)"
    if "mode ls = Access_denied"
  proof -
    from that n have l: "ls' = ls" by simp
    with r h that have e: "history st' = []" by (simp add: readHistory_denied)
    with 5 l show ?thesis by auto
  qed
  from 0 1 2 3 4 5 6 n 7 8 show ?thesis by blast
qed

theorem handleDelete_effects_witness:
  "handleDelete True ''111111111'' stateAB (storageAB Working) =
     (None,
      stateAB\<lparr>history := [entryB], currentEntry := Some entryB, printQueue := [],
        statusMessage := Some (Success, ''Barcode deleted.'')\<rparr>,
      \<lparr>history_item = Some (Array_json [entryB]), queue_item = None, mode = Working\<rparr>) \<and>
   readHistory \<lparr>history_item = Some (Array_json [entryB]), queue_item = None, mode = Working\<rparr> =
     [entryB] \<and>
   handleDelete False ''111111111'' stateAB (storageAB Working) =
     (None, stateAB, storageAB Working) \<and>
   handleDelete True ''111111111'' stateAB (storageAB Write_rejected) =
     (None,
      stateAB\<lparr>history := [entryA, entryB], currentEntry := Some entryA, printQueue := [],
        statusMessage := Some (Success, ''Barcode deleted.'')\<rparr>,
      storageAB Write_rejected) \<and>
   handleDelete True ''111111111'' stateAB (storageAB Access_denied) =
     (None,
      stateAB\<lparr>history := [], currentEntry := None, printQueue := [],
        statusMessage := Some (Success, ''Barcode deleted.'')\<rparr>,
      storageAB Access_denied)"
  using handleDelete_effects [of "''111111111''" stateAB "storageAB Working"]
    handleDelete_effects [of "''111111111''" stateAB "storageAB Write_rejected"]
    handleDelete_effects [of "''111111111''" stateAB "storageAB Access_denied"]
  by (simp add: handleDelete_def deleteEntry_Working deleteEntry_not_Working
      readHistory_Working readHistory_Write_rejected readHistory_denied storageAB_def
      stateAB_def entryA_def entryB_def itemA_def showStatus_def initialState_def)

text \<open>
  The storage rejects writes; the history is \<open>[entryA, entryB]\<close>, \<open>entryA\<close> is current and
  is in the print queue. After the confirmed deletion of the id of \<open>entryA\<close> the queue is
  empty, but the history and the store still hold \<open>entryA\<close>, and it is still current.
\<close>

theorem handleDelete_write_rejected_counterexample:
  "handleDelete True ''111111111'' stateAB (storageAB Write_rejected) =
     (None,
      stateAB\<lparr>printQueue := [], statusMessage := Some (Success, ''Barcode deleted.'')\<rparr>,
      storageAB Write_rejected) \<and>
   history stateAB = [entryA, entryB] \<and> currentEntry stateAB = Some entryA \<and>
   getHistory (storageAB Write_rejected) = Inr [entryA, entryB] \<and>
   id_str entryA = ''111111111''"
  by (simp add: handleDelete_def deleteEntry_def deleteEntry_try_def getHistory_def
      getHistory_try_def getItem_history_def setItem_history_def storageAB_def
      stateAB_def entryA_def entryB_def itemA_def showStatus_def initialState_def)

section \<open>The bound of the print queue\<close>




















end
